theory Spec2Isabelle
  imports Main "HOL-Library.Word"
begin

section \<open>JavaScript values used by the plugin\<close>

text \<open>
  A JavaScript string is a sequence of UTF-16 code units, a \<open>Uint8Array\<close> a sequence
  of bytes. String literals of the source are written with \<open>lit\<close>; the characters
  that are not ASCII (the emoji of the notices) are given by their code units.
\<close>

type_synonym byte = "8 word"
type_synonym jsstring = "16 word list"

definition lit :: "string \<Rightarrow> jsstring" where
  "lit s = map of_char s"

definition CRLF :: jsstring where
  "CRLF = [0x0D, 0x0A]"

definition LF :: "16 word" where
  "LF = 0x0A"

definition DQ :: jsstring where
  "DQ = [0x22]"

text \<open>The emoji of the notices: U+274C, U+2705, U+1F3A4, U+1F534, U+1F6D1, U+1F504.\<close>

definition CROSS :: jsstring where
  "CROSS = [0x274C]"

definition CHECK :: jsstring where
  "CHECK = [0x2705]"

definition MIC :: jsstring where
  "MIC = [0xD83C, 0xDFA4]"

definition RED :: jsstring where
  "RED = [0xD83D, 0xDD34]"

definition STOPSIGN :: jsstring where
  "STOPSIGN = [0xD83D, 0xDED1]"

definition ARROWS :: jsstring where
  "ARROWS = [0xD83D, 0xDD04]"

text \<open>
  \<open>String.prototype.trim\<close> removes the code units of ECMAScript's WhiteSpace and
  LineTerminator productions from both ends.
\<close>

definition isWhiteSpace :: "16 word \<Rightarrow> bool" where
  "isWhiteSpace c =
     (c \<in> set [0x09, 0x0A, 0x0B, 0x0C, 0x0D, 0x20, 0xA0, 0x1680, 0x2028, 0x2029,
                0x202F, 0x205F, 0x3000, 0xFEFF]
      \<or> (0x2000 \<le> c \<and> c \<le> 0x200A))"

definition trim :: "jsstring \<Rightarrow> jsstring" where
  "trim s = rev (dropWhile isWhiteSpace (rev (dropWhile isWhiteSpace s)))"

text \<open>\<open>s.includes(pat)\<close>: \<open>pat\<close> occurs in \<open>s\<close> as a contiguous run.\<close>

fun startsWith :: "'a list \<Rightarrow> 'a list \<Rightarrow> bool" where
  "startsWith s [] = True"
| "startsWith [] (p # ps) = False"
| "startsWith (c # cs) (p # ps) = (c = p \<and> startsWith cs ps)"

fun str_includes :: "'a list \<Rightarrow> 'a list \<Rightarrow> bool" where
  "str_includes [] pat = (pat = [])"
| "str_includes (c # cs) pat = (startsWith (c # cs) pat \<or> str_includes cs pat)"

text \<open>\<open>s.split(sep)\<close> for a separator of one code unit; \<open>''.split(sep)\<close> is \<open>['']\<close>.\<close>

fun split :: "'a \<Rightarrow> 'a list \<Rightarrow> 'a list list" where
  "split sep [] = [[]]"
| "split sep (c # cs) =
     (if c = sep then [] # split sep cs
      else (case split sep cs of
              [] \<Rightarrow> [[c]]
            | piece # pieces \<Rightarrow> (c # piece) # pieces))"

text \<open>\<open>s.replace(/[:.]/g, '-')\<close>.\<close>

definition replaceColonDot :: "jsstring \<Rightarrow> jsstring" where
  "replaceColonDot s = map (\<lambda>c. if c = 0x3A \<or> c = 0x2E then 0x2D else c) s"

text \<open>The decimal form of an integer, as a template literal prints it.\<close>

fun digits :: "nat \<Rightarrow> jsstring" where
  "digits n = (if n < 10 then [of_nat (48 + n)] else digits (n div 10) @ [of_nat (48 + n mod 10)])"

definition numberToString :: "int \<Rightarrow> jsstring" where
  "numberToString i = (if i < 0 then lit ''-'' @ digits (nat (- i)) else digits (nat i))"

text \<open>
  \<open>TextEncoder.encode\<close>: the string is read as code points (a surrogate that has no
  partner becomes U+FFFD) and each code point is written in UTF-8.
\<close>

definition isHighSurrogate :: "16 word \<Rightarrow> bool" where
  "isHighSurrogate c = (0xD800 \<le> c \<and> c \<le> 0xDBFF)"

definition isLowSurrogate :: "16 word \<Rightarrow> bool" where
  "isLowSurrogate c = (0xDC00 \<le> c \<and> c \<le> 0xDFFF)"

definition loneUnit :: "16 word \<Rightarrow> nat" where
  "loneUnit c = (if isHighSurrogate c \<or> isLowSurrogate c then 0xFFFD else unat c)"

fun codePoints :: "jsstring \<Rightarrow> nat list" where
  "codePoints [] = []"
| "codePoints [c] = [loneUnit c]"
| "codePoints (c # d # cs) =
     (if isHighSurrogate c \<and> isLowSurrogate d
      then (0x10000 + (unat c - 0xD800) * 0x400 + (unat d - 0xDC00)) # codePoints cs
      else loneUnit c # codePoints (d # cs))"

definition utf8 :: "nat \<Rightarrow> byte list" where
  "utf8 cp =
     (if cp < 0x80 then [of_nat cp]
      else if cp < 0x800 then [of_nat (0xC0 + cp div 0x40), of_nat (0x80 + cp mod 0x40)]
      else if cp < 0x10000 then
        [of_nat (0xE0 + cp div 0x1000), of_nat (0x80 + (cp div 0x40) mod 0x40),
         of_nat (0x80 + cp mod 0x40)]
      else
        [of_nat (0xF0 + cp div 0x40000), of_nat (0x80 + (cp div 0x1000) mod 0x40),
         of_nat (0x80 + (cp div 0x40) mod 0x40), of_nat (0x80 + cp mod 0x40)])"

definition encode :: "jsstring \<Rightarrow> byte list" where
  "encode s = concat (map utf8 (codePoints s))"

text \<open>
  A \<open>Blob\<close> is its bytes and its type; \<open>new Blob(parts, {type})\<close> concatenates the
  parts in order. (The constructor also lower-cases the type; every type the plugin
  passes is lower case already.)
\<close>

record Blob =
  blobBytes :: "byte list"
  blobType :: jsstring

definition blobSize :: "Blob \<Rightarrow> nat" where
  "blobSize b = length (blobBytes b)"

definition newBlob :: "Blob list \<Rightarrow> jsstring \<Rightarrow> Blob" where
  "newBlob parts ty = \<lparr>blobBytes = concat (map blobBytes parts), blobType = ty\<rparr>"

text \<open>
  A thrown value: \<open>new Error(msg)\<close> has no \<open>status\<close>; the errors of \<open>requestUrl\<close>
  carry the HTTP status.
\<close>

record js_error =
  status :: "int option"
  message :: jsstring

definition newError :: "jsstring \<Rightarrow> js_error" where
  "newError msg = \<lparr>status = None, message = msg\<rparr>"

section \<open>The plugin's data (main.ts, lines 3-21)\<close>

record VoiceNotesSettings =
  openaiApiKey :: jsstring
  enableTranscription :: bool

definition DEFAULT_SETTINGS :: VoiceNotesSettings where
  "DEFAULT_SETTINGS = \<lparr>openaiApiKey = [], enableTranscription = False\<rparr>"

text \<open>A media stream is known by an identifier; a recorder by its stream and MIME type.\<close>

type_synonym MediaStream = nat

datatype MediaRecorder = MediaRecorder MediaStream jsstring

record RecordingState =
  isRecording :: bool
  mediaRecorder :: "MediaRecorder option"
  stream :: "MediaStream option"
  audioChunks :: "Blob list"
  startTime :: int
  mimeType :: jsstring

definition newRecordingState :: RecordingState where
  "newRecordingState =
     \<lparr>isRecording = False, mediaRecorder = None, stream = None, audioChunks = [],
      startTime = 0, mimeType = lit ''audio/webm''\<rparr>"

section \<open>The host: effects and answers\<close>

record request =
  url :: jsstring
  http_method :: jsstring
  headers :: "(jsstring \<times> jsstring) list"
  body :: "byte list"

text \<open>
  Every call the plugin makes to the host application or the browser is recorded, in
  order, in the plugin's list of events.
\<close>

datatype event =
    Notice jsstring
  | ConsoleError jsstring js_error
  | GetUserMedia
  | NewMediaRecorder MediaStream jsstring nat
  | RecorderStart nat
  | RecorderStop
  | TracksStop MediaStream
  | SetTimeout nat
  | CreateBinary jsstring "byte list"
  | RequestUrl request
  | ReplaceRange jsstring nat nat
  | SetCursor nat nat
  | SaveData VoiceNotesSettings

text \<open>
  The active leaf of the workspace: its view type and, for a markdown view, its editor.
  An editor has a cursor; \<open>editorError\<close> is the error its calls throw, if they throw.
\<close>

record Editor =
  cursorLine :: nat
  cursorCh :: nat
  editorError :: "js_error option"

record Leaf =
  viewType :: jsstring
  editor :: "Editor option"

text \<open>
  \<open>response.json\<close> and its \<open>text\<close> field, a string when present: \<open>None\<close> when
  \<open>json\<close> is missing, \<open>Some None\<close> when it has no \<open>text\<close>.
\<close>

record response =
  json :: "jsstring option option"

text \<open>
  What the host answers to the calls of one run of a handler: each field is read at
  one place of the source.
\<close>

record Host =
  getUserMedia :: "js_error + MediaStream"
  isTypeSupported :: "jsstring \<Rightarrow> bool"
  dateNow :: int
  newMediaRecorder :: "js_error option"
  recorderStart :: "js_error option"
  dateNowStatusBar :: int
  toISOString :: jsstring
  activeFile :: "jsstring option option"
  createBinary :: "js_error option"
  mathRandom36 :: jsstring
  requestUrl :: "js_error + response"

record Plugin =
  settings :: VoiceNotesSettings
  recordingState :: RecordingState
  statusBarItem :: "jsstring option"
  activeLeaf :: "Leaf option"
  events :: "event list"

definition emit :: "event \<Rightarrow> Plugin \<Rightarrow> Plugin" where
  "emit e w = w\<lparr>events := events w @ [e]\<rparr>"

definition notice :: "jsstring \<Rightarrow> Plugin \<Rightarrow> Plugin" where
  "notice msg w = emit (Notice msg) w"

section \<open>transcribeAudio (lines 287-373)\<close>

text \<open>Lines 296-300: the file name sent with the audio.\<close>

definition audioFilename :: "jsstring \<Rightarrow> jsstring" where
  "audioFilename ty =
     (if str_includes ty (lit ''webm'') then lit ''audio.webm''
      else if str_includes ty (lit ''mp3'') \<or> str_includes ty (lit ''mpeg'') then lit ''audio.mp3''
      else if str_includes ty (lit ''wav'') then lit ''audio.wav''
      else if str_includes ty (lit ''ogg'') then lit ''audio.ogg''
      else lit ''audio.webm'')"

text \<open>Lines 307-327: the parts pushed to \<open>formParts\<close>, in the order of the pushes.\<close>

definition formParts :: "jsstring \<Rightarrow> jsstring \<Rightarrow> Blob \<Rightarrow> byte list list" where
  "formParts boundary filename audioBlob =
     [encode (lit ''--'' @ boundary @ CRLF),
      encode (lit ''Content-Disposition: form-data; name='' @ DQ @ lit ''file'' @ DQ
              @ lit ''; filename='' @ DQ @ filename @ DQ @ CRLF),
      encode (lit ''Content-Type: '' @ blobType audioBlob @ CRLF @ CRLF),
      blobBytes audioBlob,
      encode CRLF,
      encode (lit ''--'' @ boundary @ CRLF),
      encode (lit ''Content-Disposition: form-data; name='' @ DQ @ lit ''model'' @ DQ
              @ CRLF @ CRLF),
      encode (lit ''whisper-1'' @ CRLF),
      encode (lit ''--'' @ boundary @ CRLF),
      encode (lit ''Content-Disposition: form-data; name='' @ DQ @ lit ''language'' @ DQ
              @ CRLF @ CRLF),
      encode (lit ''zh'' @ CRLF),
      encode (lit ''--'' @ boundary @ lit ''--'' @ CRLF)]"

text \<open>
  Lines 330-336. \<open>Uint8Array.prototype.set(part, offset)\<close> throws a RangeError when
  the part does not fit; \<open>new Uint8Array(n)\<close> is \<open>n\<close> zero bytes.
\<close>

definition u8_set :: "byte list \<Rightarrow> byte list \<Rightarrow> nat \<Rightarrow> byte list option" where
  "u8_set buf part offset =
     (if offset + length part \<le> length buf
      then Some (take offset buf @ part @ drop (offset + length part) buf)
      else None)"

fun mergeLoop :: "byte list list \<Rightarrow> byte list \<Rightarrow> nat \<Rightarrow> (byte list \<times> nat) option" where
  "mergeLoop [] formDataBuffer offset = Some (formDataBuffer, offset)"
| "mergeLoop (part # parts) formDataBuffer offset =
     (case u8_set formDataBuffer part offset of
        None \<Rightarrow> None
      | Some buf \<Rightarrow> mergeLoop parts buf (offset + length part))"

definition mergeParts :: "byte list list \<Rightarrow> byte list option" where
  "mergeParts parts =
     (let totalLength = foldl (\<lambda>sum part. sum + length part) 0 parts;
          formDataBuffer = replicate totalLength 0
      in map_option fst (mergeLoop parts formDataBuffer 0))"

text \<open>Lines 340-348: the request handed to \<open>requestUrl\<close>.\<close>

definition transcriptionRequest :: "jsstring \<Rightarrow> jsstring \<Rightarrow> byte list \<Rightarrow> request" where
  "transcriptionRequest apiKey boundary formDataBuffer =
     \<lparr>url = lit ''https://api.openai.com/v1/audio/transcriptions'',
      http_method = lit ''POST'',
      headers = [(lit ''Authorization'', lit ''Bearer '' @ apiKey),
                 (lit ''Content-Type'', lit ''multipart/form-data; boundary='' @ boundary)],
      body = formDataBuffer\<rparr>"

text \<open>
  Lines 288-348, up to the call of \<open>requestUrl\<close>, where the function waits for the
  answer. \<open>Inl\<close> is the error thrown before the request is made.
\<close>

definition transcribeAudio_send :: "Host \<Rightarrow> Blob \<Rightarrow> Plugin \<Rightarrow> (js_error + unit) \<times> Plugin" where
  "transcribeAudio_send h audioBlob w =
     (if openaiApiKey (settings w) = []
      then (Inl (newError (lit ''OpenAI API Key not configured'')), w)
      else
        let boundary = lit ''----formdata-obsidian-'' @ mathRandom36 h;
            filename = audioFilename (blobType audioBlob)
        in case mergeParts (formParts boundary filename audioBlob) of
             None \<Rightarrow> (Inl (newError (lit ''offset is out of bounds'')), w)
           | Some formDataBuffer \<Rightarrow>
               (Inr (),
                emit (RequestUrl (transcriptionRequest (openaiApiKey (settings w)) boundary
                                    formDataBuffer)) w))"

text \<open>Lines 359-371: the message of the error thrown again.\<close>

definition errorMessage :: "js_error \<Rightarrow> jsstring" where
  "errorMessage error =
     (if status error = Some 401 then lit ''Invalid API Key or unauthorized''
      else if status error = Some 429
        then lit ''API request rate limit exceeded, please try again later''
      else if status error = Some 403
        then lit ''API access denied, please check API Key permissions''
      else if message error \<noteq> [] then message error
      else lit ''Transcription failed'')"

definition transcribeAudio_catch :: "js_error \<Rightarrow> Plugin \<Rightarrow> (js_error + jsstring) \<times> Plugin" where
  "transcribeAudio_catch error w =
     (Inl (newError (errorMessage error)),
      emit (ConsoleError (lit ''OpenAI API error:'') error) w)"

text \<open>Lines 350-372: the answer of \<open>requestUrl\<close> arrives.\<close>

definition transcribeAudio_receive :: "Host \<Rightarrow> Plugin \<Rightarrow> (js_error + jsstring) \<times> Plugin" where
  "transcribeAudio_receive h w =
     (case requestUrl h of
        Inl error \<Rightarrow> transcribeAudio_catch error w
      | Inr resp \<Rightarrow>
          (case json resp of
             Some (Some t) \<Rightarrow>
               if t \<noteq> [] then (Inr (trim t), w)
               else transcribeAudio_catch (newError (lit ''Invalid transcription result format'')) w
           | _ \<Rightarrow>
               transcribeAudio_catch (newError (lit ''Invalid transcription result format'')) w))"


section \<open>loadSettings, saveSettings and the settings tab (lines 42-59, 103-109)\<close>

text \<open>
  What \<open>loadData\<close> returns: \<open>None\<close> when nothing is stored, else an object that has
  each field of the settings or not.
\<close>

record StoredData =
  storedApiKey :: "jsstring option"
  storedEnableTranscription :: "bool option"

text \<open>\<open>Object.assign({}, DEFAULT_SETTINGS, data)\<close>: the own fields of \<open>data\<close> overwrite.\<close>

definition assignStored :: "VoiceNotesSettings \<Rightarrow> StoredData option \<Rightarrow> VoiceNotesSettings" where
  "assignStored target src =
     (case src of
        None \<Rightarrow> target
      | Some d \<Rightarrow>
          \<lparr>openaiApiKey = (case storedApiKey d of Some k \<Rightarrow> k | None \<Rightarrow> openaiApiKey target),
           enableTranscription =
             (case storedEnableTranscription d of
                Some b \<Rightarrow> b
              | None \<Rightarrow> enableTranscription target)\<rparr>)"

definition loadSettings :: "StoredData option \<Rightarrow> Plugin \<Rightarrow> Plugin" where
  "loadSettings loadData w = w\<lparr>settings := assignStored DEFAULT_SETTINGS loadData\<rparr>"

definition saveSettings :: "Plugin \<Rightarrow> Plugin" where
  "saveSettings w = emit (SaveData (settings w)) w"

definition onChangeApiKey :: "jsstring \<Rightarrow> Plugin \<Rightarrow> Plugin" where
  "onChangeApiKey v w = saveSettings (w\<lparr>settings := (settings w)\<lparr>openaiApiKey := v\<rparr>\<rparr>)"

definition onChangeEnableTranscription :: "bool \<Rightarrow> Plugin \<Rightarrow> Plugin" where
  "onChangeEnableTranscription v w =
     saveSettings (w\<lparr>settings := (settings w)\<lparr>enableTranscription := v\<rparr>\<rparr>)"

section \<open>Recording (lines 111-212, 409-425)\<close>

definition idleText :: jsstring where
  "idleText = MIC @ lit '' VoiceNotes''"

text \<open>Lines 409-425. The timer set at line 417 is the event \<open>SetTimeout\<close>.\<close>

definition updateStatusBar :: "Host \<Rightarrow> Plugin \<Rightarrow> Plugin" where
  "updateStatusBar h w =
     (case statusBarItem w of
        None \<Rightarrow> w
      | Some _ \<Rightarrow>
          if isRecording (recordingState w) then
            let duration = (dateNowStatusBar h - startTime (recordingState w)) div 1000
            in emit (SetTimeout 1000)
                 (w\<lparr>statusBarItem :=
                      Some (RED @ lit '' Recording '' @ numberToString duration @ lit ''s'')\<rparr>)
          else w\<lparr>statusBarItem := Some idleText\<rparr>)"

text \<open>Lines 417-421: the timer fires.\<close>

definition statusBarTimer :: "Host \<Rightarrow> Plugin \<Rightarrow> Plugin" where
  "statusBarTimer h w = (if isRecording (recordingState w) then updateStatusBar h w else w)"

text \<open>Lines 138-152: the first supported format, else the default.\<close>

definition formatOptions :: "(jsstring \<times> jsstring) list" where
  "formatOptions =
     [(lit ''audio/webm;codecs=opus'', lit ''.webm''),
      (lit ''audio/webm'', lit ''.webm''),
      (lit ''audio/mpeg'', lit ''.mp3''),
      (lit ''audio/wav'', lit ''.wav''),
      (lit ''audio/ogg;codecs=opus'', lit ''.ogg'')]"

fun selectLoop ::
  "(jsstring \<Rightarrow> bool) \<Rightarrow> (jsstring \<times> jsstring) list \<Rightarrow> jsstring \<times> jsstring \<Rightarrow> jsstring \<times> jsstring"
where
  "selectLoop supported [] selectedFormat = selectedFormat"
| "selectLoop supported (format # rest) selectedFormat =
     (if supported (fst format) then format else selectLoop supported rest selectedFormat)"

definition selectFormat :: "(jsstring \<Rightarrow> bool) \<Rightarrow> jsstring \<times> jsstring" where
  "selectFormat supported = selectLoop supported formatOptions (lit ''audio/webm'', lit ''.webm'')"

text \<open>Lines 186-189.\<close>

definition startRecording_catch :: "js_error \<Rightarrow> Plugin \<Rightarrow> Plugin" where
  "startRecording_catch error w =
     notice (lit ''Cannot access microphone: '' @ message error)
       (emit (ConsoleError (lit ''Failed to start recording:'') error) w)"

text \<open>
  Lines 127-189: what runs once \<open>getUserMedia\<close> has answered. The constructor of the
  recorder and its \<open>start\<close> are calls of the browser inside the \<open>try\<close>; when one
  throws, the state set at lines 155-159 stays.
\<close>

definition startRecording_resume :: "Host \<Rightarrow> Plugin \<Rightarrow> Plugin" where
  "startRecording_resume h w =
     (case getUserMedia h of
        Inl error \<Rightarrow> startRecording_catch error w
      | Inr s \<Rightarrow>
          (let selectedFormat = selectFormat (isTypeSupported h);
               w1 = w\<lparr>recordingState :=
                       newRecordingState\<lparr>isRecording := True, startTime := dateNow h,
                                         stream := Some s, mimeType := fst selectedFormat\<rparr>\<rparr>
           in (case newMediaRecorder h of
                 Some error \<Rightarrow> startRecording_catch error w1
               | None \<Rightarrow>
                   (let w2 = emit (NewMediaRecorder s (fst selectedFormat) 64000)
                               (w1\<lparr>recordingState :=
                                     (recordingState w1)
                                       \<lparr>mediaRecorder :=
                                          Some (MediaRecorder s (fst selectedFormat))\<rparr>\<rparr>)
                    in (case recorderStart h of
                          Some error \<Rightarrow> startRecording_catch error w2
                        | None \<Rightarrow>
                            notice (RED @ lit '' Recording started...'')
                              (updateStatusBar h (emit (RecorderStart 1000) w2)))))))"

text \<open>Lines 119-123 and the call at line 127, where the function waits.\<close>

definition startRecording_begin :: "Plugin \<Rightarrow> bool \<times> Plugin" where
  "startRecording_begin w =
     (if isRecording (recordingState w) then (False, notice (lit ''Already recording...'') w)
      else (True, emit GetUserMedia w))"

definition startRecording :: "Host \<Rightarrow> Plugin \<Rightarrow> Plugin" where
  "startRecording h w =
     (case startRecording_begin w of
        (False, w') \<Rightarrow> w'
      | (True, w') \<Rightarrow> startRecording_resume h w')"

text \<open>Lines 192-212.\<close>

definition stopRecording :: "Plugin \<Rightarrow> Plugin" where
  "stopRecording w =
     (if \<not> isRecording (recordingState w) then w
      else
        let w1 = w\<lparr>recordingState := (recordingState w)\<lparr>isRecording := False\<rparr>\<rparr>;
            w2 = (case mediaRecorder (recordingState w1) of
                    Some _ \<Rightarrow> emit RecorderStop w1
                  | None \<Rightarrow> w1);
            w3 = (case stream (recordingState w2) of
                    Some s \<Rightarrow> emit (TracksStop s) w2
                  | None \<Rightarrow> w2);
            w4 = (case statusBarItem w3 of
                    Some _ \<Rightarrow> w3\<lparr>statusBarItem := Some idleText\<rparr>
                  | None \<Rightarrow> w3)
        in notice (STOPSIGN @ lit '' Recording stopped'') w4)"

text \<open>Lines 111-117.\<close>

definition toggleRecording :: "Host \<Rightarrow> Plugin \<Rightarrow> Plugin" where
  "toggleRecording h w =
     (if isRecording (recordingState w) then stopRecording w else startRecording h w)"

text \<open>Lines 97-101.\<close>

definition onunload :: "Plugin \<Rightarrow> Plugin" where
  "onunload w = (if isRecording (recordingState w) then stopRecording w else w)"

text \<open>Lines 168-172: \<open>event.data\<close> is \<open>None\<close> when the event carries no data.\<close>

definition ondataavailable :: "Blob option \<Rightarrow> Plugin \<Rightarrow> Plugin" where
  "ondataavailable eventData w =
     (case eventData of
        None \<Rightarrow> w
      | Some d \<Rightarrow>
          if blobSize d > 0
          then w\<lparr>recordingState :=
                   (recordingState w)\<lparr>audioChunks := audioChunks (recordingState w) @ [d]\<rparr>\<rparr>
          else w)"

section \<open>insertTextToEditor (lines 375-407)\<close>

definition insertTextToEditor :: "jsstring \<Rightarrow> Plugin \<Rightarrow> Plugin" where
  "insertTextToEditor txt w =
     (if txt = [] \<or> trim txt = [] then w
      else
        (case activeLeaf w of
           None \<Rightarrow> notice (CROSS @ lit '' No active note page'') w
         | Some leaf \<Rightarrow>
             (if viewType leaf \<noteq> lit ''markdown''
              then notice (CROSS @ lit '' Current page is not a Markdown note'') w
              else
                (case editor leaf of
                   None \<Rightarrow> notice (CROSS @ lit '' Cannot find editor'') w
                 | Some ed \<Rightarrow>
                     (case editorError ed of
                        Some error \<Rightarrow>
                          notice (CROSS @ lit '' Failed to insert text: '' @ message error)
                            (emit (ConsoleError (lit ''Failed to insert text:'') error) w)
                      | None \<Rightarrow>
                          (let textToInsert = trim txt @ [LF];
                               line = cursorLine ed + length (split LF textToInsert) - 1;
                               w1 = emit (ReplaceRange textToInsert (cursorLine ed) (cursorCh ed)) w;
                               w2 = emit (SetCursor line 0) w1
                           in w2\<lparr>activeLeaf :=
                                  Some (leaf\<lparr>editor :=
                                          Some (ed\<lparr>cursorLine := line, cursorCh := 0\<rparr>)\<rparr>)\<rparr>))))))"

section \<open>saveAudioFile (lines 250-285)\<close>

definition fileExtension :: "jsstring \<Rightarrow> jsstring" where
  "fileExtension ty =
     (if str_includes ty (lit ''webm'') then lit ''.webm''
      else if str_includes ty (lit ''mp3'') \<or> str_includes ty (lit ''mpeg'') then lit ''.mp3''
      else if str_includes ty (lit ''wav'') then lit ''.wav''
      else if str_includes ty (lit ''ogg'') then lit ''.ogg''
      else lit ''.webm'')"

text \<open>Lines 260-261.\<close>

definition audioFileName :: "Host \<Rightarrow> Blob \<Rightarrow> jsstring" where
  "audioFileName h audioBlob =
     lit ''voice-note-'' @ replaceColonDot (toISOString h) @ fileExtension (blobType audioBlob)"

text \<open>
  Lines 264-271: \<open>activeFile h\<close> is \<open>None\<close> without an active file, \<open>Some None\<close>
  when the file has no parent, else the parent's path.
\<close>

definition audioFilePath :: "Host \<Rightarrow> Blob \<Rightarrow> jsstring" where
  "audioFilePath h audioBlob =
     (let folderPath = (case activeFile h of Some (Some p) \<Rightarrow> p | _ \<Rightarrow> [])
      in if folderPath \<noteq> [] then folderPath @ lit ''/'' @ audioFileName h audioBlob
         else audioFileName h audioBlob)"

definition saveAudioFile :: "Host \<Rightarrow> Blob \<Rightarrow> Plugin \<Rightarrow> jsstring option \<times> Plugin" where
  "saveAudioFile h audioBlob w =
     (let w1 = emit (CreateBinary (audioFilePath h audioBlob) (blobBytes audioBlob)) w
      in case createBinary h of
           None \<Rightarrow>
             (Some (lit ''!['' @ audioFileName h audioBlob @ lit '']('' @ audioFilePath h audioBlob
                    @ lit '')''), w1)
         | Some error \<Rightarrow>
             (None,
              notice (CROSS @ lit '' Failed to save audio file: '' @ message error)
                (emit (ConsoleError (lit ''Failed to save audio file:'') error) w1)))"

section \<open>processRecording (lines 214-248)\<close>

text \<open>Lines 215-223: \<open>Inl\<close> when it returns at line 217, else the blob composed.\<close>

definition processRecording_begin :: "Plugin \<Rightarrow> Plugin + Blob" where
  "processRecording_begin w =
     (if length (audioChunks (recordingState w)) = 0
      then Inl (notice (CROSS @ lit '' Recording data is empty'') w)
      else Inr (newBlob (audioChunks (recordingState w)) (mimeType (recordingState w))))"

text \<open>Lines 226-229.\<close>

definition processRecording_save :: "Host \<Rightarrow> Blob \<Rightarrow> Plugin \<Rightarrow> Plugin" where
  "processRecording_save h audioBlob w =
     (case saveAudioFile h audioBlob w of
        (Some audioLink, w1) \<Rightarrow>
          if audioLink \<noteq> []
          then insertTextToEditor (lit ''### Voice Note'' @ [LF] @ audioLink @ [LF, LF]) w1
          else w1
      | (None, w1) \<Rightarrow> w1)"

text \<open>Lines 240-243.\<close>

definition processRecording_catch :: "js_error \<Rightarrow> Plugin \<Rightarrow> Plugin" where
  "processRecording_catch error w =
     notice (CROSS @ lit '' Transcription failed: '' @ message error)
       (emit (ConsoleError (lit ''Transcription failed:'') error) w)"

text \<open>
  Lines 232-235, up to the request: \<open>True\<close> when the function now waits for the answer
  of \<open>requestUrl\<close>.
\<close>

definition processRecording_request :: "Host \<Rightarrow> Blob \<Rightarrow> Plugin \<Rightarrow> bool \<times> Plugin" where
  "processRecording_request h audioBlob w =
     (if enableTranscription (settings w) \<and> openaiApiKey (settings w) \<noteq> [] then
        (case transcribeAudio_send h audioBlob (notice (ARROWS @ lit '' Transcribing...'') w) of
           (Inl error, w1) \<Rightarrow> (False, processRecording_catch error w1)
         | (Inr _, w1) \<Rightarrow> (True, w1))
      else (False, w))"

text \<open>Lines 235-243, from the answer on.\<close>

definition processRecording_response :: "Host \<Rightarrow> Plugin \<Rightarrow> Plugin" where
  "processRecording_response h w =
     (case transcribeAudio_receive h w of
        (Inr transcription, w1) \<Rightarrow>
          if transcription \<noteq> [] then
            notice (CHECK @ lit '' Transcription completed'')
              (insertTextToEditor
                 (lit ''**Transcription:**'' @ [LF] @ transcription @ [LF, LF]) w1)
          else w1
      | (Inl error, w1) \<Rightarrow> processRecording_catch error w1)"

text \<open>Line 247.\<close>

definition processRecording_cleanup :: "Plugin \<Rightarrow> Plugin" where
  "processRecording_cleanup w = w\<lparr>recordingState := (recordingState w)\<lparr>audioChunks := []\<rparr>\<rparr>"

text \<open>Lines 231-247, once the file is saved.\<close>

definition processRecording_transcribe :: "Host \<Rightarrow> Blob \<Rightarrow> Plugin \<Rightarrow> Plugin" where
  "processRecording_transcribe h audioBlob w =
     (case processRecording_request h audioBlob w of
        (True, w1) \<Rightarrow> processRecording_cleanup (processRecording_response h w1)
      | (False, w1) \<Rightarrow> processRecording_cleanup w1)"

text \<open>The whole function, when nothing else runs while it waits.\<close>

definition processRecording :: "Host \<Rightarrow> Plugin \<Rightarrow> Plugin" where
  "processRecording h w =
     (case processRecording_begin w of
        Inl w' \<Rightarrow> w'
      | Inr audioBlob \<Rightarrow>
          processRecording_transcribe h audioBlob (processRecording_save h audioBlob w))"

text \<open>Lines 63-95: the plugin as constructed, and \<open>onload\<close>.\<close>

definition newPlugin :: "Leaf option \<Rightarrow> Plugin" where
  "newPlugin leaf =
     \<lparr>settings = DEFAULT_SETTINGS, recordingState = newRecordingState, statusBarItem = None,
      activeLeaf = leaf, events = []\<rparr>"

definition onload :: "StoredData option \<Rightarrow> Plugin \<Rightarrow> Plugin" where
  "onload loadData w = (loadSettings loadData w)\<lparr>statusBarItem := Some idleText\<rparr>"

section \<open>The handlers as the host runs them\<close>

text \<open>
  \<open>startRecording\<close> and \<open>processRecording\<close> are \<open>async\<close>: at an \<open>await\<close> the
  function stops and the host runs other handlers until the awaited answer arrives. A
  function that waits is kept as a \<open>pending\<close> entry: for \<open>getUserMedia\<close> (line 127),
  for the file being saved (line 226, with the blob composed at line 221) and for the
  answer of \<open>requestUrl\<close> (lines 235 and 340). The waits for \<open>arrayBuffer\<close> (lines
  274 and 303) read the blob only and are not kept apart.
\<close>

datatype pending = AwaitUserMedia | AwaitSave Blob | AwaitResponse

text \<open>
  What the host can do next: a click on the status bar, the ribbon icon or the command
  (all call \<open>toggleRecording\<close>), the answer to a pending call, the recorder's
  \<open>dataavailable\<close> and \<open>stop\<close> events, the status bar's timer, a change in the
  settings tab, another active leaf, and unloading the plugin. The recorder's events and
  the timer may come at any time: every order the browser can produce is among the runs.
\<close>

datatype hostEvent =
    Click
  | Resume pending Host
  | DataAvailable "Blob option"
  | RecorderStopped
  | Timer Host
  | ChangeApiKey jsstring
  | ChangeEnableTranscription bool
  | ChangeActiveLeaf "Leaf option"
  | Unload

fun step :: "hostEvent \<Rightarrow> Plugin \<times> pending list \<Rightarrow> (Plugin \<times> pending list) option" where
  "step Click (w, ps) =
     Some (if isRecording (recordingState w) then (stopRecording w, ps)
           else (case startRecording_begin w of
                   (True, w') \<Rightarrow> (w', AwaitUserMedia # ps)
                 | (False, w') \<Rightarrow> (w', ps)))"
| "step (Resume AwaitUserMedia h) (w, ps) =
     (if AwaitUserMedia \<in> set ps
      then Some (startRecording_resume h w, remove1 AwaitUserMedia ps)
      else None)"
| "step (Resume (AwaitSave audioBlob) h) (w, ps) =
     (if AwaitSave audioBlob \<in> set ps
      then Some (case processRecording_request h audioBlob (processRecording_save h audioBlob w) of
                   (True, w1) \<Rightarrow> (w1, AwaitResponse # remove1 (AwaitSave audioBlob) ps)
                 | (False, w1) \<Rightarrow>
                     (processRecording_cleanup w1, remove1 (AwaitSave audioBlob) ps))
      else None)"
| "step (Resume AwaitResponse h) (w, ps) =
     (if AwaitResponse \<in> set ps
      then Some (processRecording_cleanup (processRecording_response h w),
                 remove1 AwaitResponse ps)
      else None)"
| "step (DataAvailable eventData) (w, ps) = Some (ondataavailable eventData w, ps)"
| "step RecorderStopped (w, ps) =
     Some (case processRecording_begin w of
             Inl w' \<Rightarrow> (w', ps)
           | Inr audioBlob \<Rightarrow> (w, AwaitSave audioBlob # ps))"
| "step (Timer h) (w, ps) = Some (statusBarTimer h w, ps)"
| "step (ChangeApiKey v) (w, ps) = Some (onChangeApiKey v w, ps)"
| "step (ChangeEnableTranscription v) (w, ps) = Some (onChangeEnableTranscription v w, ps)"
| "step (ChangeActiveLeaf leaf) (w, ps) = Some (w\<lparr>activeLeaf := leaf\<rparr>, ps)"
| "step Unload (w, ps) = Some (onunload w, ps)"

fun run :: "hostEvent list \<Rightarrow> Plugin \<times> pending list \<Rightarrow> (Plugin \<times> pending list) option" where
  "run [] s = Some s"
| "run (e # es) s = (case step e s of None \<Rightarrow> None | Some s' \<Rightarrow> run es s')"

text \<open>What a run leaves of the session: the flag, the fragments, the functions that wait.\<close>

definition sessionView :: "Plugin \<times> pending list \<Rightarrow> bool \<times> Blob list \<times> pending list" where
  "sessionView s =
     (isRecording (recordingState (fst s)), audioChunks (recordingState (fst s)), snd s)"

text \<open>The events a handler added to the list of events.\<close>

definition newEvents :: "Plugin \<Rightarrow> Plugin \<Rightarrow> event list" where
  "newEvents w w' = drop (length (events w)) (events w')"

text \<open>A handler only adds to the list of events.\<close>

definition extends :: "Plugin \<Rightarrow> Plugin \<Rightarrow> bool" where
  "extends w w' = (take (length (events w)) (events w') = events w)"



fun isCall :: "event \<Rightarrow> bool" where
  "isCall (CreateBinary path bytes) = True"
| "isCall (RequestUrl r) = True"
| "isCall e = False"

fun isEditorCall :: "event \<Rightarrow> bool" where
  "isEditorCall (ReplaceRange t line ch) = True"
| "isEditorCall (SetCursor line ch) = True"
| "isEditorCall e = False"


section \<open>Sample values\<close>

definition sampleChunk :: Blob where
  "sampleChunk = \<lparr>blobBytes = [1, 2, 3], blobType = lit ''audio/webm''\<rparr>"

definition sampleChunk2 :: Blob where
  "sampleChunk2 = \<lparr>blobBytes = [4, 5], blobType = lit ''audio/webm''\<rparr>"

definition sampleLeaf :: Leaf where
  "sampleLeaf =
     \<lparr>viewType = lit ''markdown'',
      editor = Some \<lparr>cursorLine = 7, cursorCh = 2, editorError = None\<rparr>\<rparr>"

definition sampleHost :: Host where
  "sampleHost =
     \<lparr>getUserMedia = Inr 1,
      isTypeSupported = (\<lambda>t. t = lit ''audio/webm''),
      dateNow = 5000,
      newMediaRecorder = None,
      recorderStart = None,
      dateNowStatusBar = 5000,
      toISOString = lit ''2024-01-02T03:04:05.678Z'',
      activeFile = Some (Some (lit ''notes'')),
      createBinary = None,
      mathRandom36 = lit ''0.k3'',
      requestUrl = Inr \<lparr>json = Some (Some (lit '' hello ''))\<rparr>\<rparr>"




definition samplePlugin :: Plugin where
  "samplePlugin =
     onload (Some \<lparr>storedApiKey = Some (lit ''sk-1''), storedEnableTranscription = Some True\<rparr>)
       (newPlugin (Some sampleLeaf))"

definition sampleEmpty :: Blob where
  "sampleEmpty = \<lparr>blobBytes = [], blobType = lit ''audio/webm''\<rparr>"

definition sampleChunk3 :: Blob where
  "sampleChunk3 = \<lparr>blobBytes = [6], blobType = lit ''audio/webm''\<rparr>"

definition sampleStored :: StoredData where
  "sampleStored = \<lparr>storedApiKey = Some (lit ''sk-1''), storedEnableTranscription = None\<rparr>"

definition sampleStored2 :: StoredData where
  "sampleStored2 = \<lparr>storedApiKey = None, storedEnableTranscription = Some True\<rparr>"

definition sampleRecording :: Plugin where
  "sampleRecording =
     ondataavailable (Some sampleChunk2)
       (ondataavailable (Some sampleChunk) (startRecording sampleHost samplePlugin))"

definition sampleRecorded :: Plugin where
  "sampleRecorded = stopRecording sampleRecording"

text \<open>
  A second recording is started while the first one waits for its transcription: the
  first fragment of the second recording arrives before the answer does.
\<close>

definition overlappingEvents :: "hostEvent list" where
  "overlappingEvents =
     [Click, Resume AwaitUserMedia sampleHost, DataAvailable (Some sampleChunk),
      Click, RecorderStopped,
      Resume (AwaitSave (newBlob [sampleChunk] (lit ''audio/webm''))) sampleHost,
      Click, Resume AwaitUserMedia sampleHost, DataAvailable (Some sampleChunk2)]"

text \<open>The property of the fragments that every handler keeps.\<close>

definition chunksNonEmpty :: "Plugin \<Rightarrow> bool" where
  "chunksNonEmpty w = (\<forall>c\<in>set (audioChunks (recordingState w)). 0 < blobSize c)"

section \<open>Evaluating the sample values\<close>

lemmas string_defs = lit_def CRLF_def LF_def DQ_def CROSS_def CHECK_def MIC_def RED_def STOPSIGN_def
  ARROWS_def


lemmas sample_defs = sampleChunk_def sampleChunk2_def sampleLeaf_def sampleHost_def
  samplePlugin_def onload_def newPlugin_def loadSettings_def assignStored_def
  DEFAULT_SETTINGS_def newRecordingState_def idleText_def

lemma samplePlugin_fields:
  "activeLeaf samplePlugin = Some sampleLeaf"
  "events samplePlugin = []"
  "settings samplePlugin = \<lparr>openaiApiKey = lit ''sk-1'', enableTranscription = True\<rparr>"
  "recordingState samplePlugin = newRecordingState"
  "statusBarItem samplePlugin = Some idleText"
  by (simp_all add: sample_defs)

lemma sampleRecording_fields:
  "recordingState sampleRecording =
     \<lparr>isRecording = True, mediaRecorder = Some (MediaRecorder 1 (lit ''audio/webm'')),
      stream = Some 1, audioChunks = [sampleChunk, sampleChunk2], startTime = 5000,
      mimeType = lit ''audio/webm''\<rparr>"
  "settings sampleRecording = \<lparr>openaiApiKey = lit ''sk-1'', enableTranscription = True\<rparr>"
  "activeLeaf sampleRecording = Some sampleLeaf"
  "statusBarItem sampleRecording = Some (RED @ lit '' Recording 0s'')"
  by (simp_all add: sampleRecording_def sample_defs string_defs startRecording_def
        startRecording_begin_def startRecording_resume_def selectFormat_def formatOptions_def
        updateStatusBar_def ondataavailable_def blobSize_def emit_def notice_def Let_def
        numberToString_def)

lemma sampleRecorded_fields:
  "recordingState sampleRecorded =
     \<lparr>isRecording = False, mediaRecorder = Some (MediaRecorder 1 (lit ''audio/webm'')),
      stream = Some 1, audioChunks = [sampleChunk, sampleChunk2], startTime = 5000,
      mimeType = lit ''audio/webm''\<rparr>"
  "settings sampleRecorded = \<lparr>openaiApiKey = lit ''sk-1'', enableTranscription = True\<rparr>"
  "activeLeaf sampleRecorded = Some sampleLeaf"
  by (simp_all add: sampleRecorded_def stopRecording_def sampleRecording_fields emit_def
        notice_def Let_def)



lemma sample_sizes:
  "0 < blobSize sampleChunk" "0 < blobSize sampleChunk2" "0 < blobSize sampleChunk3"
  by (simp_all add: blobSize_def sampleChunk_def sampleChunk2_def sampleChunk3_def)

lemma sample_key: "lit ''sk-1'' \<noteq> []"
  by (simp add: lit_def)



section \<open>The multipart body of transcribeAudio\<close>

lemma foldl_length_sum:
  "foldl (\<lambda>sum part. sum + length part) a parts = a + sum_list (map length parts)"
  by (induction parts arbitrary: a) auto

lemma mergeLoop_fits:
  "offset + sum_list (map length parts) \<le> length buf \<Longrightarrow>
   mergeLoop parts buf offset =
     Some (take offset buf @ concat parts @ drop (offset + sum_list (map length parts)) buf,
           offset + sum_list (map length parts))"
proof (induction parts arbitrary: buf offset)
  case Nil
  then show ?case by simp
next
  case (Cons part parts)
  let ?buf = "take offset buf @ part @ drop (offset + length part) buf"
  have fits: "offset + length part \<le> length buf"
    using Cons.prems by simp
  have len: "length ?buf = length buf"
    using fits by simp
  have step: "mergeLoop (part # parts) buf offset = mergeLoop parts ?buf (offset + length part)"
    using fits by (simp add: u8_set_def)
  have "offset + length part + sum_list (map length parts) \<le> length ?buf"
    using Cons.prems len by simp
  from Cons.IH [OF this]
  have "mergeLoop parts ?buf (offset + length part) =
          Some (take (offset + length part) ?buf @ concat parts
                @ drop (offset + length part + sum_list (map length parts)) ?buf,
                offset + length part + sum_list (map length parts))" .
  moreover have "take (offset + length part) ?buf = take offset buf @ part"
    using fits by simp
  moreover have "drop (offset + length part + sum_list (map length parts)) ?buf
                 = drop (offset + length part + sum_list (map length parts)) buf"
    using fits by (simp add: add.commute add.left_commute)
  ultimately show ?case
    using step by (simp add: add.assoc)
qed

lemma mergeParts_concat: "mergeParts parts = Some (concat parts)"
proof -
  let ?n = "sum_list (map length parts)"
  have "mergeLoop parts (replicate ?n 0) 0 = Some (concat parts, ?n)"
    using mergeLoop_fits [of 0 parts "replicate ?n 0"] by simp
  then show ?thesis
    by (simp add: mergeParts_def foldl_length_sum)
qed





section \<open>The list of events\<close>

lemma emit_events: "events (emit e w) = events w @ [e]"
  by (simp add: emit_def)

lemma emit_fields [simp]:
  "settings (emit e w) = settings w"
  "recordingState (emit e w) = recordingState w"
  "activeLeaf (emit e w) = activeLeaf w"
  "statusBarItem (emit e w) = statusBarItem w"
  by (simp_all add: emit_def)

lemma notice_fields [simp]:
  "settings (notice m w) = settings w"
  "recordingState (notice m w) = recordingState w"
  "activeLeaf (notice m w) = activeLeaf w"
  "statusBarItem (notice m w) = statusBarItem w"
  by (simp_all add: notice_def)



lemma newEvents_self [simp]: "newEvents w w = []"
  by (simp add: newEvents_def)

lemma extends_iff: "extends w w' \<longleftrightarrow> (\<exists>xs. events w' = events w @ xs)"
proof
  assume "extends w w'"
  then have "events w' = events w @ drop (length (events w)) (events w')"
    unfolding extends_def by (metis append_take_drop_id)
  then show "\<exists>xs. events w' = events w @ xs" ..
next
  assume "\<exists>xs. events w' = events w @ xs"
  then show "extends w w'"
    by (auto simp add: extends_def)
qed

lemma extends_refl [simp]: "extends w w"
  by (simp add: extends_def)


lemma extends_length: "extends w w' \<Longrightarrow> length (events w) \<le> length (events w')"
  by (auto simp add: extends_iff)








section \<open>What each handler changes\<close>

lemma updateStatusBar_recordingState [simp]:
  "recordingState (updateStatusBar h w) = recordingState w"
  by (simp add: updateStatusBar_def Let_def split: option.splits)

lemma extends_startRecording_resume: "extends w (startRecording_resume h w)"
  by (simp add: startRecording_resume_def startRecording_catch_def updateStatusBar_def
        extends_def emit_def notice_def Let_def split: sum.splits option.splits)

lemma startRecording_idle_events:
  "\<not> isRecording (recordingState w) \<Longrightarrow>
   length (events w) < length (events (startRecording h w))"
  using extends_length [OF extends_startRecording_resume, of "emit GetUserMedia w" h]
  by (simp add: startRecording_def startRecording_begin_def emit_events)

lemma startRecording_resume_chunks:
  "audioChunks (recordingState (startRecording_resume h w)) = audioChunks (recordingState w)
   \<or> audioChunks (recordingState (startRecording_resume h w)) = []"
  by (simp add: startRecording_resume_def startRecording_catch_def newRecordingState_def
        Let_def split: sum.splits option.splits)

lemma startRecording_resume_settings [simp]:
  "settings (startRecording_resume h w) = settings w"
  by (simp add: startRecording_resume_def startRecording_catch_def updateStatusBar_def Let_def
        split: sum.splits option.splits)

lemma startRecording_begin_recordingState [simp]:
  "recordingState (snd (startRecording_begin w)) = recordingState w"
  by (simp add: startRecording_begin_def)

lemma startRecording_begin_settings [simp]:
  "settings (snd (startRecording_begin w)) = settings w"
  by (simp add: startRecording_begin_def)

lemma startRecording_begin_fst [simp]:
  "fst (startRecording_begin w) = (\<not> isRecording (recordingState w))"
  by (simp add: startRecording_begin_def)

lemma stopRecording_chunks [simp]:
  "audioChunks (recordingState (stopRecording w)) = audioChunks (recordingState w)"
  by (simp add: stopRecording_def Let_def split: option.splits)

lemma stopRecording_settings [simp]: "settings (stopRecording w) = settings w"
  by (simp add: stopRecording_def Let_def split: option.splits)

lemma stopRecording_recordingState:
  "recordingState (stopRecording w) =
     (if isRecording (recordingState w) then (recordingState w)\<lparr>isRecording := False\<rparr>
      else recordingState w)"
  by (simp add: stopRecording_def Let_def split: option.splits)

lemma ondataavailable_chunks:
  "audioChunks (recordingState (ondataavailable eventData w)) =
     audioChunks (recordingState w)
     @ (case eventData of
          None \<Rightarrow> []
        | Some d \<Rightarrow> if 0 < blobSize d then [d] else [])"
  by (simp add: ondataavailable_def split: option.splits)

lemma ondataavailable_settings [simp]: "settings (ondataavailable d w) = settings w"
  by (simp add: ondataavailable_def split: option.splits)

lemma ondataavailable_recordingState:
  "recordingState (ondataavailable (Some d) w) =
     (if 0 < blobSize d
      then (recordingState w)\<lparr>audioChunks := audioChunks (recordingState w) @ [d]\<rparr>
      else recordingState w)"
  by (simp add: ondataavailable_def)

lemma insertTextToEditor_frame [simp]:
  "settings (insertTextToEditor t w) = settings w"
  "recordingState (insertTextToEditor t w) = recordingState w"
  by (simp_all add: insertTextToEditor_def Let_def split: option.splits)

lemma extends_insertTextToEditor [simp]: "extends w (insertTextToEditor t w)"
  by (simp add: insertTextToEditor_def extends_def emit_def notice_def Let_def
        split: option.splits)


lemma newBlob_fields [simp]:
  "blobBytes (newBlob parts ty) = concat (map blobBytes parts)"
  "blobType (newBlob parts ty) = ty"
  by (simp_all add: newBlob_def)

lemma saveAudioFile_frame [simp]:
  "settings (snd (saveAudioFile h b w)) = settings w"
  "recordingState (snd (saveAudioFile h b w)) = recordingState w"
  "activeLeaf (snd (saveAudioFile h b w)) = activeLeaf w"
  by (simp_all add: saveAudioFile_def Let_def split: option.splits)



lemma processRecording_save_frame [simp]:
  "settings (processRecording_save h b w) = settings w"
  "recordingState (processRecording_save h b w) = recordingState w"
proof -
  obtain l w1 where s: "saveAudioFile h b w = (l, w1)"
    by (cases "saveAudioFile h b w")
  have "settings w1 = settings w" "recordingState w1 = recordingState w"
    using saveAudioFile_frame [of h b w] s by simp_all
  then show "settings (processRecording_save h b w) = settings w"
    "recordingState (processRecording_save h b w) = recordingState w"
    using s by (simp_all add: processRecording_save_def split: option.splits)
qed




lemma processRecording_catch_frame [simp]:
  "settings (processRecording_catch e w) = settings w"
  "recordingState (processRecording_catch e w) = recordingState w"
  "activeLeaf (processRecording_catch e w) = activeLeaf w"
  by (simp_all add: processRecording_catch_def)



lemma processRecording_request_recordingState [simp]:
  "recordingState (snd (processRecording_request h b w)) = recordingState w"
  by (simp add: processRecording_request_def transcribeAudio_send_def Let_def
        split: option.splits)

lemma processRecording_request_settings [simp]:
  "settings (snd (processRecording_request h b w)) = settings w"
  by (simp add: processRecording_request_def transcribeAudio_send_def Let_def
        split: option.splits)

lemma processRecording_request_fst:
  "fst (processRecording_request h b w) =
     (enableTranscription (settings w) \<and> openaiApiKey (settings w) \<noteq> [])"
  by (simp add: processRecording_request_def transcribeAudio_send_def mergeParts_concat Let_def)

lemma transcribeAudio_receive_frame [simp]:
  "settings (snd (transcribeAudio_receive h w)) = settings w"
  "recordingState (snd (transcribeAudio_receive h w)) = recordingState w"
  "activeLeaf (snd (transcribeAudio_receive h w)) = activeLeaf w"
  by (simp_all add: transcribeAudio_receive_def transcribeAudio_catch_def
        split: sum.splits option.splits)

lemma processRecording_response_frame [simp]:
  "settings (processRecording_response h w) = settings w"
  "recordingState (processRecording_response h w) = recordingState w"
proof -
  obtain r w1 where s: "transcribeAudio_receive h w = (r, w1)"
    by (cases "transcribeAudio_receive h w")
  have "settings w1 = settings w" "recordingState w1 = recordingState w"
    using transcribeAudio_receive_frame [of h w] s by simp_all
  then show "settings (processRecording_response h w) = settings w"
    "recordingState (processRecording_response h w) = recordingState w"
    using s by (simp_all add: processRecording_response_def split: sum.splits)
qed





lemma processRecording_cleanup_frame [simp]:
  "events (processRecording_cleanup w) = events w"
  "settings (processRecording_cleanup w) = settings w"
  "activeLeaf (processRecording_cleanup w) = activeLeaf w"
  "audioChunks (recordingState (processRecording_cleanup w)) = []"
  by (simp_all add: processRecording_cleanup_def)

lemma processRecording_cleanup_recordingState:
  "recordingState (processRecording_cleanup w) = (recordingState w)\<lparr>audioChunks := []\<rparr>"
  by (simp add: processRecording_cleanup_def)

lemma newEvents_cleanup [simp]:
  "newEvents w (processRecording_cleanup w') = newEvents w w'"
  by (simp add: newEvents_def)

lemma extends_cleanup [simp]: "extends w (processRecording_cleanup w') = extends w w'"
  by (simp add: extends_def)

lemma processRecording_nonempty:
  "audioChunks (recordingState w) \<noteq> [] \<Longrightarrow>
   processRecording h w =
     processRecording_transcribe h
       (newBlob (audioChunks (recordingState w)) (mimeType (recordingState w)))
       (processRecording_save h
          (newBlob (audioChunks (recordingState w)) (mimeType (recordingState w))) w)"
  by (simp add: processRecording_def processRecording_begin_def)






section \<open>The two states of the session\<close>

text \<open>
  Claim C3. The flag \<open>isRecording\<close> alone decides what \<open>toggleRecording\<close> does:
  while recording it is \<open>stopRecording\<close> (and not \<open>startRecording\<close>), when idle it
  is \<open>startRecording\<close> (and not \<open>stopRecording\<close>). \<open>startRecording\<close> while
  recording only adds the notice "Already recording..."; \<open>stopRecording\<close> when idle
  returns the state as it is.
\<close>

theorem toggleRecording_two_states:
  "(isRecording (recordingState w) \<longrightarrow>
      toggleRecording h w = stopRecording w
      \<and> toggleRecording h w \<noteq> startRecording h w
      \<and> \<not> isRecording (recordingState (toggleRecording h w))
      \<and> startRecording h w = w\<lparr>events := events w @ [Notice (lit ''Already recording...'')]\<rparr>)
   \<and> (\<not> isRecording (recordingState w) \<longrightarrow>
      toggleRecording h w = startRecording h w
      \<and> toggleRecording h w \<noteq> stopRecording w
      \<and> stopRecording w = w)"
proof (intro conjI impI)
  assume r: "isRecording (recordingState w)"
  show "toggleRecording h w = stopRecording w"
    using r by (simp add: toggleRecording_def)
  show nr: "\<not> isRecording (recordingState (toggleRecording h w))"
    using r by (simp add: toggleRecording_def stopRecording_def Let_def split: option.splits)
  show a: "startRecording h w = w\<lparr>events := events w @ [Notice (lit ''Already recording...'')]\<rparr>"
    using r by (simp add: startRecording_def startRecording_begin_def notice_def emit_def)
  have "isRecording (recordingState (startRecording h w))"
    using r by (simp add: a)
  with nr show "toggleRecording h w \<noteq> startRecording h w"
    by metis
next
  assume i: "\<not> isRecording (recordingState w)"
  show "toggleRecording h w = startRecording h w"
    using i by (simp add: toggleRecording_def)
  show s: "stopRecording w = w"
    using i by (simp add: stopRecording_def)
  show "toggleRecording h w \<noteq> stopRecording w"
    using startRecording_idle_events [OF i, of h] i s by (auto simp add: toggleRecording_def)
qed

theorem toggleRecording_two_states_witness:
  "isRecording (recordingState sampleRecording)
   \<and> toggleRecording sampleHost sampleRecording = stopRecording sampleRecording
   \<and> startRecording sampleHost sampleRecording =
       sampleRecording\<lparr>events := events sampleRecording @ [Notice (lit ''Already recording...'')]\<rparr>
   \<and> \<not> isRecording (recordingState sampleRecorded)
   \<and> toggleRecording sampleHost sampleRecorded = startRecording sampleHost sampleRecorded
   \<and> stopRecording sampleRecorded = sampleRecorded"
proof -
  have r: "isRecording (recordingState sampleRecording)"
    by (simp add: sampleRecording_fields)
  have i: "\<not> isRecording (recordingState sampleRecorded)"
    by (simp add: sampleRecorded_fields)
  from toggleRecording_two_states [of sampleRecording sampleHost] r
  have 1: "toggleRecording sampleHost sampleRecording = stopRecording sampleRecording"
    "startRecording sampleHost sampleRecording =
       sampleRecording\<lparr>events := events sampleRecording @ [Notice (lit ''Already recording...'')]\<rparr>"
    by blast+
  from toggleRecording_two_states [of sampleRecorded sampleHost] i
  have 2: "toggleRecording sampleHost sampleRecorded = startRecording sampleHost sampleRecorded"
    "stopRecording sampleRecorded = sampleRecorded"
    by blast+
  from r i 1 2 show ?thesis
    by blast
qed

text \<open>
  Claim C9. With no fragment buffered, \<open>processRecording\<close> shows the notice
  "Recording data is empty" (after the cross mark of the source) and returns: this notice
  is the only event, so no file is created, no request is made and the editor is not
  called; the rest of the state, the active leaf with its editor included, is unchanged.
\<close>

theorem processRecording_empty:
  assumes "audioChunks (recordingState w) = []"
  shows "processRecording h w =
           w\<lparr>events := events w @ [Notice (CROSS @ lit '' Recording data is empty'')]\<rparr>
       \<and> newEvents w (processRecording h w) = [Notice (CROSS @ lit '' Recording data is empty'')]
       \<and> filter isCall (newEvents w (processRecording h w)) = []
       \<and> filter isEditorCall (newEvents w (processRecording h w)) = []
       \<and> activeLeaf (processRecording h w) = activeLeaf w"
  using assms
  by (simp add: processRecording_def processRecording_begin_def notice_def emit_def newEvents_def)

theorem processRecording_empty_witness:
  "audioChunks (recordingState samplePlugin) = []
   \<and> newEvents samplePlugin (processRecording sampleHost samplePlugin) =
       [Notice (CROSS @ lit '' Recording data is empty'')]
   \<and> filter isCall (newEvents samplePlugin (processRecording sampleHost samplePlugin)) = []
   \<and> filter isEditorCall (newEvents samplePlugin (processRecording sampleHost samplePlugin)) = []"
proof -
  have e: "audioChunks (recordingState samplePlugin) = []"
    by (simp add: samplePlugin_fields newRecordingState_def)
  from processRecording_empty [OF e, of sampleHost] e show ?thesis
    by blast
qed

section \<open>Saving and transcribing\<close>





section \<open>Failures of the external calls\<close>









section \<open>Settings\<close>

text \<open>
  Claim C7. \<open>loadSettings\<close> sets the settings to the stored data merged over the
  defaults: a field the stored object has overrides the default, a field it lacks keeps
  the default, and with nothing stored the settings are the defaults, an empty key and
  transcription disabled. \<open>saveSettings\<close> hands exactly the current settings to
  \<open>saveData\<close>.
\<close>

theorem loadSettings_merge:
  "loadSettings None w = w\<lparr>settings := DEFAULT_SETTINGS\<rparr>
   \<and> openaiApiKey DEFAULT_SETTINGS = []
   \<and> \<not> enableTranscription DEFAULT_SETTINGS
   \<and> (storedApiKey d = Some k \<longrightarrow> openaiApiKey (settings (loadSettings (Some d) w)) = k)
   \<and> (storedApiKey d = None \<longrightarrow> openaiApiKey (settings (loadSettings (Some d) w)) = [])
   \<and> (storedEnableTranscription d = Some b \<longrightarrow>
        enableTranscription (settings (loadSettings (Some d) w)) = b)
   \<and> (storedEnableTranscription d = None \<longrightarrow>
        \<not> enableTranscription (settings (loadSettings (Some d) w)))
   \<and> saveSettings w = w\<lparr>events := events w @ [SaveData (settings w)]\<rparr>"
  by (simp add: loadSettings_def assignStored_def DEFAULT_SETTINGS_def saveSettings_def emit_def)

theorem loadSettings_merge_witness:
  "storedApiKey sampleStored = Some (lit ''sk-1'')
   \<and> storedEnableTranscription sampleStored = None
   \<and> settings (loadSettings (Some sampleStored) (newPlugin None)) =
       \<lparr>openaiApiKey = lit ''sk-1'', enableTranscription = False\<rparr>
   \<and> storedApiKey sampleStored2 = None
   \<and> storedEnableTranscription sampleStored2 = Some True
   \<and> settings (loadSettings (Some sampleStored2) (newPlugin None)) =
       \<lparr>openaiApiKey = [], enableTranscription = True\<rparr>"
proof -
  have s1: "storedApiKey sampleStored = Some (lit ''sk-1'')"
    "storedEnableTranscription sampleStored = None"
    by (simp_all add: sampleStored_def)
  have s2: "storedApiKey sampleStored2 = None"
    "storedEnableTranscription sampleStored2 = Some True"
    by (simp_all add: sampleStored2_def)
  note t1 = loadSettings_merge [of "newPlugin None" sampleStored "lit ''sk-1''" True]
  note t2 = loadSettings_merge [of "newPlugin None" sampleStored2 "lit ''sk-1''" True]
  have "openaiApiKey (settings (loadSettings (Some sampleStored) (newPlugin None))) = lit ''sk-1''"
    "\<not> enableTranscription (settings (loadSettings (Some sampleStored) (newPlugin None)))"
    using t1 s1 by blast+
  moreover have "openaiApiKey (settings (loadSettings (Some sampleStored2) (newPlugin None))) = []"
    "enableTranscription (settings (loadSettings (Some sampleStored2) (newPlugin None)))"
    using t2 s2 by blast+
  ultimately show ?thesis
    using s1 s2 by (simp add: VoiceNotesSettings.equality)
qed

section \<open>Inserting text\<close>

lemma dropWhile_all: "(dropWhile P xs = []) = (\<forall>x\<in>set xs. P x)"
  by (induction xs) auto

lemma dropWhile_rest_all: "(\<forall>x\<in>set (dropWhile P xs). P x) = (\<forall>x\<in>set xs. P x)"
  by (induction xs) auto

lemma trim_empty_iff: "(trim s = []) = (\<forall>c\<in>set s. isWhiteSpace c)"
  by (simp add: trim_def dropWhile_all dropWhile_rest_all)

lemma trim_last: "trim s \<noteq> [] \<Longrightarrow> \<not> isWhiteSpace (last (trim s))"
proof -
  assume "trim s \<noteq> []"
  then have ne: "dropWhile isWhiteSpace (rev (dropWhile isWhiteSpace s)) \<noteq> []"
    by (simp add: trim_def)
  have "last (trim s) = hd (dropWhile isWhiteSpace (rev (dropWhile isWhiteSpace s)))"
    using ne by (simp add: trim_def last_rev)
  then show ?thesis
    using ne by (simp add: hd_dropWhile)
qed

lemma split_length: "length (split sep s) = Suc (count_list s sep)"
  by (induction s) (auto split: list.splits)

lemma isWhiteSpace_LF: "isWhiteSpace LF"
  by (simp add: isWhiteSpace_def LF_def)

text \<open>
  Claim C10. For a text that is empty or all white space \<open>insertTextToEditor\<close> returns
  the state as it is: no editor call, no notice. For any other text, with an active
  markdown leaf whose editor does not throw, it replaces at the cursor with the trimmed
  text and one line feed (the trimmed text does not end in white space, so in no line feed
  of its own) and sets the cursor to column 0 of the line as many lines further down as
  the inserted text has line feeds.
\<close>

theorem insertTextToEditor_trimmed:
  "((\<forall>c\<in>set txt. isWhiteSpace c) \<longrightarrow> insertTextToEditor txt w = w)
   \<and> ((\<exists>c\<in>set txt. \<not> isWhiteSpace c) \<and> activeLeaf w = Some leaf
        \<and> viewType leaf = lit ''markdown'' \<and> editor leaf = Some ed \<and> editorError ed = None
        \<longrightarrow>
        trim txt \<noteq> [] \<and> \<not> isWhiteSpace (last (trim txt)) \<and> last (trim txt) \<noteq> LF
        \<and> insertTextToEditor txt w =
            w\<lparr>events := events w
                 @ [ReplaceRange (trim txt @ [LF]) (cursorLine ed) (cursorCh ed),
                    SetCursor (cursorLine ed + count_list (trim txt @ [LF]) LF) 0],
              activeLeaf :=
                Some (leaf\<lparr>editor :=
                        Some (ed\<lparr>cursorLine := cursorLine ed + count_list (trim txt @ [LF]) LF,
                                 cursorCh := 0\<rparr>)\<rparr>)\<rparr>)"
proof (intro conjI impI)
  assume "\<forall>c\<in>set txt. isWhiteSpace c"
  then have "trim txt = []"
    by (simp add: trim_empty_iff)
  then show "insertTextToEditor txt w = w"
    by (simp add: insertTextToEditor_def)
next
  assume a: "(\<exists>c\<in>set txt. \<not> isWhiteSpace c) \<and> activeLeaf w = Some leaf
        \<and> viewType leaf = lit ''markdown'' \<and> editor leaf = Some ed \<and> editorError ed = None"
  then show ne: "trim txt \<noteq> []"
    by (simp add: trim_empty_iff)
  then show nw: "\<not> isWhiteSpace (last (trim txt))"
    by (rule trim_last)
  then show "last (trim txt) \<noteq> LF"
    using isWhiteSpace_LF by metis
  have t: "txt \<noteq> []"
    using a by auto
  show "insertTextToEditor txt w =
            w\<lparr>events := events w
                 @ [ReplaceRange (trim txt @ [LF]) (cursorLine ed) (cursorCh ed),
                    SetCursor (cursorLine ed + count_list (trim txt @ [LF]) LF) 0],
              activeLeaf :=
                Some (leaf\<lparr>editor :=
                        Some (ed\<lparr>cursorLine := cursorLine ed + count_list (trim txt @ [LF]) LF,
                                 cursorCh := 0\<rparr>)\<rparr>)\<rparr>"
    using a ne t
    by (simp add: insertTextToEditor_def split_length emit_def Let_def)
qed

theorem insertTextToEditor_trimmed_witness:
  "insertTextToEditor (lit ''  '' @ [LF]) samplePlugin = samplePlugin
   \<and> trim (lit '' hello '' @ [LF]) = lit ''hello''
   \<and> insertTextToEditor (lit '' hello '' @ [LF]) samplePlugin =
       samplePlugin\<lparr>events := [ReplaceRange (lit ''hello'' @ [LF]) 7 2, SetCursor 8 0],
         activeLeaf :=
           Some (sampleLeaf\<lparr>editor :=
                   Some \<lparr>cursorLine = 8, cursorCh = 0, editorError = None\<rparr>\<rparr>)\<rparr>"
proof -
  let ?ed = "\<lparr>cursorLine = 7, cursorCh = 2, editorError = None\<rparr>"
  have blank: "\<forall>c\<in>set (lit ''  '' @ [LF]). isWhiteSpace c"
    by (simp add: isWhiteSpace_def string_defs)
  have nonblank: "\<exists>c\<in>set (lit '' hello '' @ [LF]). \<not> isWhiteSpace c"
    by (simp add: isWhiteSpace_def string_defs)
  have leaf: "activeLeaf samplePlugin = Some sampleLeaf" "viewType sampleLeaf = lit ''markdown''"
    "editor sampleLeaf = Some ?ed" "editorError ?ed = None"
    by (simp_all add: samplePlugin_fields sampleLeaf_def)
  have tr: "trim (lit '' hello '' @ [LF]) = lit ''hello''"
    by (simp add: trim_def isWhiteSpace_def string_defs)
  have n: "count_list (lit ''hello'') LF = 0"
    by (simp add: string_defs)
  from insertTextToEditor_trimmed [of "lit ''  '' @ [LF]" samplePlugin] blank
  have 1: "insertTextToEditor (lit ''  '' @ [LF]) samplePlugin = samplePlugin"
    by blast
  from insertTextToEditor_trimmed [of "lit '' hello '' @ [LF]" samplePlugin sampleLeaf ?ed]
    nonblank leaf
  have "insertTextToEditor (lit '' hello '' @ [LF]) samplePlugin =
            samplePlugin\<lparr>events := events samplePlugin
                 @ [ReplaceRange (trim (lit '' hello '' @ [LF]) @ [LF]) (cursorLine ?ed) (cursorCh ?ed),
                    SetCursor (cursorLine ?ed + count_list (trim (lit '' hello '' @ [LF]) @ [LF]) LF) 0],
              activeLeaf :=
                Some (sampleLeaf\<lparr>editor :=
                        Some (?ed\<lparr>cursorLine := cursorLine ?ed
                                      + count_list (trim (lit '' hello '' @ [LF]) @ [LF]) LF,
                                 cursorCh := 0\<rparr>)\<rparr>)\<rparr>"
    by blast
  then have 2: "insertTextToEditor (lit '' hello '' @ [LF]) samplePlugin =
       samplePlugin\<lparr>events := [ReplaceRange (lit ''hello'' @ [LF]) 7 2, SetCursor 8 0],
         activeLeaf :=
           Some (sampleLeaf\<lparr>editor :=
                   Some \<lparr>cursorLine = 8, cursorCh = 0, editorError = None\<rparr>\<rparr>)\<rparr>"
    by (simp add: tr n samplePlugin_fields)
  from 1 tr 2 show ?thesis
    by blast
qed

section \<open>The fragments under every order of events\<close>

lemma step_chunksNonEmpty:
  assumes "chunksNonEmpty w" and "step e (w, ps) = Some (w', ps')"
  shows "chunksNonEmpty w'"
proof (cases e)
  case Click
  then show ?thesis
    using assms
    by (auto simp add: chunksNonEmpty_def startRecording_begin_def split: if_splits)
next
  case (Resume p h)
  show ?thesis
  proof (cases p)
    case AwaitUserMedia
    then show ?thesis
      using assms Resume startRecording_resume_chunks [of h w]
      by (auto simp add: chunksNonEmpty_def split: if_splits)
  next
    case (AwaitSave b)
    obtain c w1 where q: "processRecording_request h b (processRecording_save h b w) = (c, w1)"
      by (cases "processRecording_request h b (processRecording_save h b w)")
    have "recordingState w1 = recordingState w"
      using processRecording_request_recordingState [of h b "processRecording_save h b w"] q
      by simp
    then show ?thesis
      using assms Resume AwaitSave q
      by (cases c) (auto simp add: chunksNonEmpty_def processRecording_cleanup_def
                      split: if_splits)
  next
    case AwaitResponse
    then show ?thesis
      using assms Resume
      by (auto simp add: chunksNonEmpty_def split: if_splits)
  qed
next
  case (DataAvailable d)
  then show ?thesis
    using assms
    by (auto simp add: chunksNonEmpty_def ondataavailable_chunks split: option.splits if_splits)
next
  case RecorderStopped
  then show ?thesis
    using assms
    by (auto simp add: chunksNonEmpty_def processRecording_begin_def split: if_splits)
next
  case (Timer h)
  then show ?thesis
    using assms by (auto simp add: chunksNonEmpty_def statusBarTimer_def split: if_splits)
next
  case (ChangeApiKey v)
  then show ?thesis
    using assms by (auto simp add: chunksNonEmpty_def onChangeApiKey_def saveSettings_def)
next
  case (ChangeEnableTranscription v)
  then show ?thesis
    using assms
    by (auto simp add: chunksNonEmpty_def onChangeEnableTranscription_def saveSettings_def)
next
  case (ChangeActiveLeaf l)
  then show ?thesis
    using assms by (auto simp add: chunksNonEmpty_def)
next
  case Unload
  then show ?thesis
    using assms by (auto simp add: chunksNonEmpty_def onunload_def split: if_splits)
qed

lemma run_chunksNonEmpty:
  "chunksNonEmpty (fst s) \<Longrightarrow> run evs s = Some s' \<Longrightarrow> chunksNonEmpty (fst s')"
proof (induction evs arbitrary: s)
  case Nil
  then show ?case by simp
next
  case (Cons e evs)
  from Cons.prems(2) obtain s1 where s1: "step e s = Some s1" and r: "run evs s1 = Some s'"
    by (auto split: option.splits)
  have "chunksNonEmpty (fst s1)"
    using step_chunksNonEmpty [of "fst s" e "snd s" "fst s1" "snd s1"] Cons.prems(1) s1
    by simp
  then show ?case
    using Cons.IH r by blast
qed

text \<open>
  Claim C8. The callback for \<open>dataavailable\<close> appends the fragment exactly when the
  event has data of positive size, and after any sequence of host events, from the loaded
  plugin on, every fragment in \<open>audioChunks\<close> has positive size.
\<close>

theorem fragments_nonempty:
  "(run evs (onload loadData (newPlugin leaf), []) = Some (w, ps) \<longrightarrow>
      (\<forall>c\<in>set (audioChunks (recordingState w)). 0 < blobSize c))
   \<and> audioChunks (recordingState (ondataavailable eventData w0)) =
       audioChunks (recordingState w0)
       @ (case eventData of
            None \<Rightarrow> []
          | Some d \<Rightarrow> if 0 < blobSize d then [d] else [])"
proof (intro conjI impI)
  assume r: "run evs (onload loadData (newPlugin leaf), []) = Some (w, ps)"
  have "chunksNonEmpty (onload loadData (newPlugin leaf))"
    by (simp add: chunksNonEmpty_def onload_def loadSettings_def newPlugin_def
          newRecordingState_def)
  then have "chunksNonEmpty w"
    using run_chunksNonEmpty [OF _ r] by simp
  then show "\<forall>c\<in>set (audioChunks (recordingState w)). 0 < blobSize c"
    by (simp add: chunksNonEmpty_def)
next
  show "audioChunks (recordingState (ondataavailable eventData w0)) =
       audioChunks (recordingState w0)
       @ (case eventData of
            None \<Rightarrow> []
          | Some d \<Rightarrow> if 0 < blobSize d then [d] else [])"
    by (rule ondataavailable_chunks)
qed

lemma sample_run_recording:
  "run [Click, Resume AwaitUserMedia sampleHost, DataAvailable (Some sampleChunk),
        DataAvailable None, DataAvailable (Some sampleEmpty), DataAvailable (Some sampleChunk2)]
     (samplePlugin, []) = Some (sampleRecording, [])"
  by (simp add: sampleRecording_def startRecording_def startRecording_begin_def
        samplePlugin_fields newRecordingState_def ondataavailable_def blobSize_def
        sampleEmpty_def)

theorem fragments_nonempty_witness:
  "run [Click, Resume AwaitUserMedia sampleHost, DataAvailable (Some sampleChunk),
        DataAvailable None, DataAvailable (Some sampleEmpty), DataAvailable (Some sampleChunk2)]
     (samplePlugin, []) = Some (sampleRecording, [])
   \<and> audioChunks (recordingState sampleRecording) = [sampleChunk, sampleChunk2]
   \<and> 0 < blobSize sampleChunk
   \<and> 0 < blobSize sampleChunk2"
proof -
  let ?evs = "[Click, Resume AwaitUserMedia sampleHost, DataAvailable (Some sampleChunk),
        DataAvailable None, DataAvailable (Some sampleEmpty), DataAvailable (Some sampleChunk2)]"
  have r: "run ?evs
             (onload (Some \<lparr>storedApiKey = Some (lit ''sk-1''),
                             storedEnableTranscription = Some True\<rparr>)
                (newPlugin (Some sampleLeaf)), []) = Some (sampleRecording, [])"
    using sample_run_recording by (simp only: samplePlugin_def)
  have c: "audioChunks (recordingState sampleRecording) = [sampleChunk, sampleChunk2]"
    by (simp add: sampleRecording_fields)
  from fragments_nonempty [of ?evs _ _ sampleRecording "[]"] r
  have "\<forall>c\<in>set (audioChunks (recordingState sampleRecording)). 0 < blobSize c"
    by blast
  then have "0 < blobSize sampleChunk" "0 < blobSize sampleChunk2"
    by (simp_all add: c)
  with sample_run_recording c show ?thesis
    by blast
qed

section \<open>The handlers run without interruption\<close>

text \<open>
  When no other handler runs while a function waits, the steps of the host add up to the
  functions of the source.
\<close>

lemma run_toggleRecording_idle:
  "\<not> isRecording (recordingState w) \<Longrightarrow>
   run [Click, Resume AwaitUserMedia h] (w, []) = Some (toggleRecording h w, [])"
  by (simp add: toggleRecording_def startRecording_def startRecording_begin_def)

lemma run_toggleRecording_recording:
  "isRecording (recordingState w) \<Longrightarrow> run [Click] (w, []) = Some (toggleRecording h w, [])"
  by (simp add: toggleRecording_def)

lemma run_processRecording_no_fragments:
  "audioChunks (recordingState w) = [] \<Longrightarrow>
   run [RecorderStopped] (w, []) = Some (processRecording h w, [])"
  by (simp add: processRecording_def processRecording_begin_def)

lemma run_processRecording_transcribing:
  assumes "audioChunks (recordingState w) \<noteq> []"
    and "b = newBlob (audioChunks (recordingState w)) (mimeType (recordingState w))"
    and "enableTranscription (settings w)" and "openaiApiKey (settings w) \<noteq> []"
  shows "run [RecorderStopped, Resume (AwaitSave b) h, Resume AwaitResponse h] (w, [])
           = Some (processRecording h w, [])"
proof -
  have "fst (processRecording_request h b (processRecording_save h b w))"
    using assms by (simp add: processRecording_request_fst)
  then show ?thesis
    using assms
    by (cases "processRecording_request h b (processRecording_save h b w)")
       (simp add: processRecording_def processRecording_begin_def processRecording_transcribe_def)
qed

lemma run_processRecording_saving:
  assumes "audioChunks (recordingState w) \<noteq> []"
    and "b = newBlob (audioChunks (recordingState w)) (mimeType (recordingState w))"
    and "\<not> (enableTranscription (settings w) \<and> openaiApiKey (settings w) \<noteq> [])"
  shows "run [RecorderStopped, Resume (AwaitSave b) h] (w, []) = Some (processRecording h w, [])"
proof -
  have "\<not> fst (processRecording_request h b (processRecording_save h b w))"
    using assms by (simp add: processRecording_request_fst)
  then show ?thesis
    using assms
    by (cases "processRecording_request h b (processRecording_save h b w)")
       (simp add: processRecording_def processRecording_begin_def processRecording_transcribe_def)
qed

text \<open>
  Run so, a session goes through the states of its description: a successful start
  makes a fresh session, and \<open>processRecording\<close> leaves no fragment behind.
\<close>

lemma startRecording_fresh_session:
  assumes "\<not> isRecording (recordingState w)" and "getUserMedia h = Inr s"
    and "newMediaRecorder h = None" and "recorderStart h = None"
  shows "recordingState (startRecording h w) =
           \<lparr>isRecording = True,
            mediaRecorder = Some (MediaRecorder s (fst (selectFormat (isTypeSupported h)))),
            stream = Some s, audioChunks = [], startTime = dateNow h,
            mimeType = fst (selectFormat (isTypeSupported h))\<rparr>"
  using assms
  by (simp add: startRecording_def startRecording_begin_def startRecording_resume_def
        newRecordingState_def Let_def)

lemma processRecording_clears: "audioChunks (recordingState (processRecording h w)) = []"
proof (cases "audioChunks (recordingState w) = []")
  case True
  then show ?thesis
    by (simp add: processRecording_def processRecording_begin_def)
next
  case False
  obtain c w1 where q:
    "processRecording_request h
       (newBlob (audioChunks (recordingState w)) (mimeType (recordingState w)))
       (processRecording_save h
          (newBlob (audioChunks (recordingState w)) (mimeType (recordingState w))) w) = (c, w1)"
    by (cases "processRecording_request h
       (newBlob (audioChunks (recordingState w)) (mimeType (recordingState w)))
       (processRecording_save h
          (newBlob (audioChunks (recordingState w)) (mimeType (recordingState w))) w)")
  show ?thesis
    using False q
    by (cases c) (simp_all add: processRecording_nonempty processRecording_transcribe_def)
qed

section \<open>A recording started while another is transcribed\<close>

lemma startRecording_resume_sample:
  "recordingState (startRecording_resume sampleHost w) =
     \<lparr>isRecording = True, mediaRecorder = Some (MediaRecorder 1 (lit ''audio/webm'')),
      stream = Some 1, audioChunks = [], startTime = 5000, mimeType = lit ''audio/webm''\<rparr>"
  by (simp add: startRecording_resume_def sampleHost_def selectFormat_def formatOptions_def
        newRecordingState_def emit_def notice_def Let_def lit_def)

lemma step_Click:
  "step Click (w, ps) =
     Some (if isRecording (recordingState w) then (stopRecording w, ps)
           else (snd (startRecording_begin w), AwaitUserMedia # ps))"
  by (simp add: startRecording_begin_def)

lemma step_AwaitSave:
  "step (Resume (AwaitSave b) h) (w, ps) =
     (if AwaitSave b \<in> set ps
      then Some (if fst (processRecording_request h b (processRecording_save h b w))
                 then (snd (processRecording_request h b (processRecording_save h b w)),
                       AwaitResponse # remove1 (AwaitSave b) ps)
                 else (processRecording_cleanup
                         (snd (processRecording_request h b (processRecording_save h b w))),
                       remove1 (AwaitSave b) ps))
      else None)"
  by (cases "processRecording_request h b (processRecording_save h b w)") auto

lemma step_RecorderStopped:
  "step RecorderStopped (w, ps) =
     Some (if audioChunks (recordingState w) = []
           then (notice (CROSS @ lit '' Recording data is empty'') w, ps)
           else (w, AwaitSave (newBlob (audioChunks (recordingState w))
                                 (mimeType (recordingState w))) # ps))"
  by (simp add: processRecording_begin_def)

lemmas step_view =
  step_Click step_AwaitSave step_RecorderStopped step.simps(2,4,5)
  stopRecording_recordingState ondataavailable_recordingState
  processRecording_cleanup_recordingState processRecording_request_fst
  startRecording_resume_sample

text \<open>
  Claim C4 fails on the code. \<open>processRecording\<close> empties the fragments of whatever
  session is current when its last \<open>await\<close> returns (line 247). When a second
  recording starts while the first waits for its transcription, the fragment that the
  second session has buffered is dropped, not by a fragment callback and before any file
  is composed from it: the file later composed for the second session holds only the
  fragments that came after.
\<close>

theorem stale_cleanup_clears_new_session:
  "map_option sessionView (run overlappingEvents (samplePlugin, [])) =
     Some (True, [sampleChunk2], [AwaitResponse])
   \<and> map_option sessionView
        (run (overlappingEvents @ [Resume AwaitResponse sampleHost]) (samplePlugin, [])) =
      Some (True, [], [])
   \<and> map_option sessionView
        (run (overlappingEvents
              @ [Resume AwaitResponse sampleHost, DataAvailable (Some sampleChunk3), Click,
                 RecorderStopped])
           (samplePlugin, [])) =
      Some (False, [sampleChunk3], [AwaitSave (newBlob [sampleChunk3] (lit ''audio/webm''))])
   \<and> blobBytes (newBlob [sampleChunk3] (lit ''audio/webm'')) = [6]
   \<and> blobBytes sampleChunk2 = [4, 5]"
proof -
  have waiting: "map_option sessionView (run overlappingEvents (samplePlugin, [])) =
     Some (True, [sampleChunk2], [AwaitResponse])"
    by (simp add: overlappingEvents_def sessionView_def step_view samplePlugin_fields
          newRecordingState_def sample_sizes sample_key del: step.simps(1,3,6))
  have answered: "map_option sessionView
        (run (overlappingEvents @ [Resume AwaitResponse sampleHost]) (samplePlugin, [])) =
      Some (True, [], [])"
    by (simp add: overlappingEvents_def sessionView_def step_view samplePlugin_fields
          newRecordingState_def sample_sizes sample_key del: step.simps(1,3,6))
  have stopped: "map_option sessionView
        (run (overlappingEvents
              @ [Resume AwaitResponse sampleHost, DataAvailable (Some sampleChunk3), Click,
                 RecorderStopped])
           (samplePlugin, [])) =
      Some (False, [sampleChunk3], [AwaitSave (newBlob [sampleChunk3] (lit ''audio/webm''))])"
    by (simp add: overlappingEvents_def sessionView_def step_view samplePlugin_fields
          newRecordingState_def sample_sizes sample_key del: step.simps(1,3,6))
  have bytes: "blobBytes (newBlob [sampleChunk3] (lit ''audio/webm'')) = [6]"
    "blobBytes sampleChunk2 = [4, 5]"
    by (simp_all add: sampleChunk2_def sampleChunk3_def)
  from waiting answered stopped bytes show ?thesis
    by (intro conjI)
qed

end
